theory Spec2Isabelle
  imports Main "HOL-Library.Word"
begin

section \<open>Common data: addresses, errors, checked arithmetic\<close>

text \<open>
  The two pool contracts, \<open>DemoSwap\<close> (plain \<open>uint256\<close> reserves) and \<open>PrivateSwap\<close>
  (encrypted \<open>euint64\<close> reserves), are embedded as functions on explicit states.
  An \<open>address\<close> is a 160-bit word. A \<open>uint256\<close> is a natural number; Solidity 0.8
  checks every \<open>+\<close>, \<open>-\<close>, \<open>*\<close> and \<open>/\<close> and reverts with a panic when the result
  leaves the range, which the checked operations below write out. An \<open>euint64\<close> is
  modelled by its plaintext, a 64-bit word whose arithmetic wraps around as the TFHE
  operations do.
\<close>

type_synonym address = "160 word"
type_synonym euint64 = "64 word"

text \<open>
  Every revert of the source is a value of \<open>error\<close>:
  \<^item> \<open>InvalidAmount\<close>: \<open>"Amount must be > 0"\<close>, \<open>"Amounts must be > 0"\<close>;
  \<^item> \<open>InsufficientLiquidity\<close>: \<open>"Insufficient liquidity"\<close>;
  \<^item> \<open>ReservesNotInitialized\<close>: \<open>"Reserves not initialized"\<close>;
  \<^item> \<open>SlippageExceeded\<close>: \<open>"Insufficient output amount"\<close>;
  \<^item> \<open>PoolPaused\<close>: the revert of \<open>whenNotPaused\<close>; \<open>NotPaused\<close>: the revert of
    \<open>whenPaused\<close>;
  \<^item> \<open>Unauthorized\<close>: the revert of \<open>onlyOwner\<close>;
  \<^item> \<open>FeeOutOfRange\<close>: \<open>"Fee too high"\<close>, \<open>"Fee exceeds maximum"\<close>;
  \<^item> \<open>ArithmeticPanic\<close>: overflow, underflow or division by zero of checked
    \<open>uint256\<close> arithmetic;
  \<^item> \<open>TokenTransferFailed\<close>: a revert inside the token contract;
  \<^item> \<open>FhevmNotConfigured\<close>: the revert of a TFHE library call made by a contract
    whose FHEVM configuration was never set.
\<close>

datatype error =
    InvalidAmount
  | InsufficientLiquidity
  | ReservesNotInitialized
  | SlippageExceeded
  | PoolPaused
  | NotPaused
  | Unauthorized
  | FeeOutOfRange
  | ArithmeticPanic
  | TokenTransferFailed
  | FhevmNotConfigured

definition ebind :: "error + 'a \<Rightarrow> ('a \<Rightarrow> error + 'b) \<Rightarrow> error + 'b" where
  "ebind m f = (case m of Inl e \<Rightarrow> Inl e | Inr x \<Rightarrow> f x)"

text \<open>
  A call either commits its effects or reverts, and a revert rolls the whole state back
  to what it was before the call: \<open>transact\<close> returns the outcome together with the
  state after the call.
\<close>

definition transact :: "('s \<Rightarrow> error + ('a \<times> 's)) \<Rightarrow> 's \<Rightarrow> (error + 'a) \<times> 's" where
  "transact body s = (case body s of Inl e \<Rightarrow> (Inl e, s) | Inr (r, s') \<Rightarrow> (Inr r, s'))"

definition uint256_max :: nat where
  "uint256_max = 2 ^ 256 - 1"

definition checked_add :: "nat \<Rightarrow> nat \<Rightarrow> error + nat" where
  "checked_add a b = (if a + b \<le> uint256_max then Inr (a + b) else Inl ArithmeticPanic)"

definition checked_sub :: "nat \<Rightarrow> nat \<Rightarrow> error + nat" where
  "checked_sub a b = (if b \<le> a then Inr (a - b) else Inl ArithmeticPanic)"

definition checked_mul :: "nat \<Rightarrow> nat \<Rightarrow> error + nat" where
  "checked_mul a b = (if a * b \<le> uint256_max then Inr (a * b) else Inl ArithmeticPanic)"

definition checked_div :: "nat \<Rightarrow> nat \<Rightarrow> error + nat" where
  "checked_div a b = (if b = 0 then Inl ArithmeticPanic else Inr (a div b))"

definition FEE_DENOMINATOR :: nat where
  "FEE_DENOMINATOR = 10000"

section \<open>The token ledgers\<close>

text \<open>
  Modelled from the spec: the plain token ledger (the imported ERC20 contract behind
  \<open>IERC20\<close>, whose code is not part of the repository). The spec assumes a ledger "with
  transfer/transferFrom-style semantics", each primitive "atomic and
  reversible-on-failure": \<open>transfer\<close> debits the calling contract and credits the
  recipient, \<open>transferFrom\<close> spends the allowance the holder gave to the calling contract
  first; either one reverts on the zero address, on a balance that is too small, or on an
  allowance that is too small. \<open>safeTransfer\<close> and \<open>safeTransferFrom\<close> of the pool
  revert when the token call does.
\<close>

record erc20 =
  balanceOf :: "address \<Rightarrow> nat"
  allowance :: "address \<Rightarrow> address \<Rightarrow> nat"

definition erc20_move :: "erc20 \<Rightarrow> address \<Rightarrow> address \<Rightarrow> nat \<Rightarrow> error + erc20" where
  "erc20_move t from to val =
     (if from = 0 \<or> to = 0 then Inl TokenTransferFailed
      else if balanceOf t from < val then Inl TokenTransferFailed
      else
        let b1 = (balanceOf t)(from := balanceOf t from - val);
            b2 = b1(to := b1 to + val)
        in Inr (t\<lparr>balanceOf := b2\<rparr>))"

definition safeTransfer :: "erc20 \<Rightarrow> address \<Rightarrow> address \<Rightarrow> nat \<Rightarrow> error + erc20" where
  "safeTransfer t self to val = erc20_move t self to val"

definition safeTransferFrom ::
  "erc20 \<Rightarrow> address \<Rightarrow> address \<Rightarrow> address \<Rightarrow> nat \<Rightarrow> error + erc20" where
  "safeTransferFrom t self from to val =
     (let current = allowance t from self in
      if current < uint256_max then
        (if current < val then Inl TokenTransferFailed
         else erc20_move
                (t\<lparr>allowance := (allowance t)(from := (allowance t from)(self := current - val))\<rparr>)
                from to val)
      else erc20_move t from to val)"

section \<open>DemoSwap: the transparent pool\<close>

text \<open>
  The fields shared by both contracts: the owner (\<open>Ownable\<close>), the pause flag
  (\<open>Pausable\<close>), the contract's own address (\<open>address(this)\<close>) and the two immutable
  token addresses. The flag of \<open>ReentrancyGuard\<close> is not a field: it is clear at the
  start of every externally initiated call and cleared again when the call returns, and
  the ledgers modelled here never call back into the pool, so \<open>nonReentrant\<close> never
  fires on the calls described below.
\<close>

record pool =
  owner :: address
  paused :: bool
  this :: address
  tokenA :: address
  tokenB :: address

datatype demo_event =
    Swap address bool nat nat
  | LiquidityAdded address nat nat
  | LiquidityRemoved address nat nat
  | FeeUpdated nat
  | Paused address
  | Unpaused address

record DemoSwap = pool +
  ledgerA :: erc20
  ledgerB :: erc20
  reserveA :: nat
  reserveB :: nat
  feeNumerator :: nat
  events :: "demo_event list"

text \<open>\<open>_calculateSwap\<close> (internal view): returns \<open>(amountOut, newReserveIn)\<close>.\<close>

definition calculateSwap :: "DemoSwap \<Rightarrow> bool \<Rightarrow> nat \<Rightarrow> error + (nat \<times> nat)" where
  "calculateSwap s aToB amountIn =
     (let currentReserveIn = (if aToB then reserveA s else reserveB s);
          currentReserveOut = (if aToB then reserveB s else reserveA s)
      in
      ebind (checked_mul amountIn (feeNumerator s)) (\<lambda>p.
      ebind (checked_div p FEE_DENOMINATOR) (\<lambda>fee.
      ebind (checked_sub amountIn fee) (\<lambda>amountInAfterFee.
      ebind (checked_mul amountInAfterFee currentReserveOut) (\<lambda>numerator.
      ebind (checked_add currentReserveIn amountInAfterFee) (\<lambda>denominator.
      ebind (checked_div numerator denominator) (\<lambda>amountOut.
      ebind (checked_add currentReserveIn amountInAfterFee) (\<lambda>newReserveIn.
      Inr (amountOut, newReserveIn)))))))))"

text \<open>\<open>quote\<close> (external view).\<close>

definition quote :: "DemoSwap \<Rightarrow> bool \<Rightarrow> nat \<Rightarrow> error + nat" where
  "quote s aToB amountIn =
     (if amountIn = 0 \<or> reserveA s = 0 \<or> reserveB s = 0 then Inr 0
      else ebind (calculateSwap s aToB amountIn) (\<lambda>(amountOut, newReserveIn). Inr amountOut))"

text \<open>\<open>swap\<close> (external, \<open>nonReentrant whenNotPaused\<close>); \<open>sender\<close> is \<open>msg.sender\<close>.\<close>

definition DemoSwap_swap_body ::
  "address \<Rightarrow> bool \<Rightarrow> nat \<Rightarrow> nat \<Rightarrow> DemoSwap \<Rightarrow> error + (nat \<times> DemoSwap)" where
  "DemoSwap_swap_body sender aToB amountIn minAmountOut s =
     (if paused s then Inl PoolPaused
      else if \<not> amountIn > 0 then Inl InvalidAmount
      else if \<not> (reserveA s > 0 \<and> reserveB s > 0) then Inl InsufficientLiquidity
      else
        ebind (calculateSwap s aToB amountIn) (\<lambda>(amountOut, newReserveIn).
        if \<not> amountOut \<ge> minAmountOut then Inl SlippageExceeded
        else if aToB then
          ebind (safeTransferFrom (ledgerA s) (this s) sender (this s) amountIn) (\<lambda>lA.
          ebind (checked_mul amountIn (feeNumerator s)) (\<lambda>p.
          ebind (checked_div p FEE_DENOMINATOR) (\<lambda>fee.
          ebind (checked_sub amountIn fee) (\<lambda>d.
          ebind (checked_add (reserveA s) d) (\<lambda>rA.
          ebind (checked_sub (reserveB s) amountOut) (\<lambda>rB.
          ebind (safeTransfer (ledgerB s) (this s) sender amountOut) (\<lambda>lB.
          Inr (amountOut,
               s\<lparr>ledgerA := lA, ledgerB := lB, reserveA := rA, reserveB := rB,
                 events := events s @ [Swap sender aToB amountIn amountOut]\<rparr>))))))))
        else
          ebind (safeTransferFrom (ledgerB s) (this s) sender (this s) amountIn) (\<lambda>lB.
          ebind (checked_mul amountIn (feeNumerator s)) (\<lambda>p.
          ebind (checked_div p FEE_DENOMINATOR) (\<lambda>fee.
          ebind (checked_sub amountIn fee) (\<lambda>d.
          ebind (checked_add (reserveB s) d) (\<lambda>rB.
          ebind (checked_sub (reserveA s) amountOut) (\<lambda>rA.
          ebind (safeTransfer (ledgerA s) (this s) sender amountOut) (\<lambda>lA.
          Inr (amountOut,
               s\<lparr>ledgerA := lA, ledgerB := lB, reserveA := rA, reserveB := rB,
                 events := events s @ [Swap sender aToB amountIn amountOut]\<rparr>))))))))))"

definition DemoSwap_swap ::
  "address \<Rightarrow> bool \<Rightarrow> nat \<Rightarrow> nat \<Rightarrow> DemoSwap \<Rightarrow> (error + nat) \<times> DemoSwap" where
  "DemoSwap_swap sender aToB amountIn minAmountOut =
     transact (DemoSwap_swap_body sender aToB amountIn minAmountOut)"

text \<open>\<open>addLiquidity\<close> (external, \<open>nonReentrant whenNotPaused\<close>).\<close>

definition DemoSwap_addLiquidity_body ::
  "address \<Rightarrow> nat \<Rightarrow> nat \<Rightarrow> DemoSwap \<Rightarrow> error + (unit \<times> DemoSwap)" where
  "DemoSwap_addLiquidity_body sender amountA amountB s =
     (if paused s then Inl PoolPaused
      else if \<not> (amountA > 0 \<and> amountB > 0) then Inl InvalidAmount
      else
        ebind (safeTransferFrom (ledgerA s) (this s) sender (this s) amountA) (\<lambda>lA.
        ebind (safeTransferFrom (ledgerB s) (this s) sender (this s) amountB) (\<lambda>lB.
        ebind (checked_add (reserveA s) amountA) (\<lambda>rA.
        ebind (checked_add (reserveB s) amountB) (\<lambda>rB.
        Inr ((),
             s\<lparr>ledgerA := lA, ledgerB := lB, reserveA := rA, reserveB := rB,
               events := events s @ [LiquidityAdded sender amountA amountB]\<rparr>))))))"

definition DemoSwap_addLiquidity ::
  "address \<Rightarrow> nat \<Rightarrow> nat \<Rightarrow> DemoSwap \<Rightarrow> (error + unit) \<times> DemoSwap" where
  "DemoSwap_addLiquidity sender amountA amountB =
     transact (DemoSwap_addLiquidity_body sender amountA amountB)"

text \<open>\<open>removeLiquidity\<close> (external, \<open>nonReentrant whenNotPaused\<close>).\<close>

definition DemoSwap_removeLiquidity_body ::
  "address \<Rightarrow> nat \<Rightarrow> nat \<Rightarrow> DemoSwap \<Rightarrow> error + (unit \<times> DemoSwap)" where
  "DemoSwap_removeLiquidity_body sender amountA amountB s =
     (if paused s then Inl PoolPaused
      else if \<not> (amountA \<le> reserveA s \<and> amountB \<le> reserveB s) then Inl InsufficientLiquidity
      else
        ebind (checked_sub (reserveA s) amountA) (\<lambda>rA.
        ebind (checked_sub (reserveB s) amountB) (\<lambda>rB.
        ebind (safeTransfer (ledgerA s) (this s) sender amountA) (\<lambda>lA.
        ebind (safeTransfer (ledgerB s) (this s) sender amountB) (\<lambda>lB.
        Inr ((),
             s\<lparr>ledgerA := lA, ledgerB := lB, reserveA := rA, reserveB := rB,
               events := events s @ [LiquidityRemoved sender amountA amountB]\<rparr>))))))"

definition DemoSwap_removeLiquidity ::
  "address \<Rightarrow> nat \<Rightarrow> nat \<Rightarrow> DemoSwap \<Rightarrow> (error + unit) \<times> DemoSwap" where
  "DemoSwap_removeLiquidity sender amountA amountB =
     transact (DemoSwap_removeLiquidity_body sender amountA amountB)"

text \<open>\<open>updateFee\<close>, \<open>pause\<close> and \<open>unpause\<close> (external, \<open>onlyOwner\<close>).\<close>

definition updateFee_body :: "address \<Rightarrow> nat \<Rightarrow> DemoSwap \<Rightarrow> error + (unit \<times> DemoSwap)" where
  "updateFee_body sender newFeeNumerator s =
     (if sender \<noteq> owner s then Inl Unauthorized
      else if \<not> newFeeNumerator \<le> 100 then Inl FeeOutOfRange
      else Inr ((), s\<lparr>feeNumerator := newFeeNumerator,
                      events := events s @ [FeeUpdated newFeeNumerator]\<rparr>))"

definition updateFee :: "address \<Rightarrow> nat \<Rightarrow> DemoSwap \<Rightarrow> (error + unit) \<times> DemoSwap" where
  "updateFee sender newFeeNumerator = transact (updateFee_body sender newFeeNumerator)"

definition DemoSwap_pause_body :: "address \<Rightarrow> DemoSwap \<Rightarrow> error + (unit \<times> DemoSwap)" where
  "DemoSwap_pause_body sender s =
     (if sender \<noteq> owner s then Inl Unauthorized
      else if paused s then Inl PoolPaused
      else Inr ((), s\<lparr>paused := True, events := events s @ [Paused sender]\<rparr>))"

definition DemoSwap_pause :: "address \<Rightarrow> DemoSwap \<Rightarrow> (error + unit) \<times> DemoSwap" where
  "DemoSwap_pause sender = transact (DemoSwap_pause_body sender)"

definition DemoSwap_unpause_body :: "address \<Rightarrow> DemoSwap \<Rightarrow> error + (unit \<times> DemoSwap)" where
  "DemoSwap_unpause_body sender s =
     (if sender \<noteq> owner s then Inl Unauthorized
      else if \<not> paused s then Inl NotPaused
      else Inr ((), s\<lparr>paused := False, events := events s @ [Unpaused sender]\<rparr>))"

definition DemoSwap_unpause :: "address \<Rightarrow> DemoSwap \<Rightarrow> (error + unit) \<times> DemoSwap" where
  "DemoSwap_unpause sender = transact (DemoSwap_unpause_body sender)"

section \<open>PrivateSwap: the confidential pool\<close>

text \<open>
  An encrypted value is modelled by its plaintext. A handle of type \<open>euint64\<close> is either
  uninitialised (\<open>None\<close>, the zero handle a storage slot starts with) or holds a 64-bit
  plaintext (\<open>Some v\<close>); \<open>TFHE.isInitialized\<close> tells the two apart without any external
  call, and the arithmetic of the TFHE library reads an uninitialised operand as the
  encryption of 0. \<open>TFHE.add\<close>, \<open>TFHE.sub\<close> and \<open>TFHE.mul\<close> denote 64-bit wrap-around
  arithmetic, \<open>TFHE.ge\<close> the unsigned comparison and \<open>TFHE.select\<close> the multiplexer.
  The access-control calls (\<open>TFHE.allow\<close>, \<open>TFHE.allowThis\<close>,
  \<open>TFHE.allowTransient\<close>) change no value and are not part of the state.

  The TFHE library performs every operation on ciphertexts by an external call to the
  executor contract whose address it reads from the calling contract's FHEVM
  configuration. \<open>PrivateSwap\<close> imports \<open>fhevm/config/ZamaFHEVMConfig.sol\<close> but is
  declared \<open>is Ownable, ReentrancyGuard, Pausable\<close> only, and its constructor stores the
  two token addresses and nothing else: no function of the contract ever writes the
  configuration, so the executor address keeps its default, the zero address, and a call to
  it reverts. \<open>TFHE.asEuint64\<close>, the conversion of an external input (\<open>einput\<close> with its
  proof), is the first library call that each of \<open>addLiquidity\<close>, \<open>removeLiquidity\<close>,
  \<open>getQuote\<close> and \<open>swap\<close> makes; the calls after it are written out as the source has
  them.
\<close>

definition TFHEExecutorAddress :: address where
  "TFHEExecutorAddress = 0"

definition TFHE_asEuint64 :: "euint64 \<Rightarrow> error + euint64" where
  "TFHE_asEuint64 input =
     (if TFHEExecutorAddress = 0 then Inl FhevmNotConfigured else Inr input)"

definition isInitialized :: "euint64 option \<Rightarrow> bool" where
  "isInitialized h = (h \<noteq> None)"

definition plain :: "euint64 option \<Rightarrow> euint64" where
  "plain h = (case h of None \<Rightarrow> 0 | Some v \<Rightarrow> v)"

definition TFHE_add :: "euint64 \<Rightarrow> euint64 \<Rightarrow> euint64" where
  "TFHE_add a b = a + b"

definition TFHE_sub :: "euint64 \<Rightarrow> euint64 \<Rightarrow> euint64" where
  "TFHE_sub a b = a - b"

definition TFHE_mul :: "euint64 \<Rightarrow> euint64 \<Rightarrow> euint64" where
  "TFHE_mul a b = a * b"

definition TFHE_ge :: "euint64 \<Rightarrow> euint64 \<Rightarrow> bool" where
  "TFHE_ge a b = (a \<ge> b)"

definition TFHE_and :: "bool \<Rightarrow> bool \<Rightarrow> bool" where
  "TFHE_and a b = (a \<and> b)"

definition TFHE_select :: "bool \<Rightarrow> euint64 \<Rightarrow> euint64 \<Rightarrow> euint64" where
  "TFHE_select c a b = (if c then a else b)"

text \<open>
  Modelled from the spec: the confidential token ledger behind
  \<open>ILocalConfidentialFungibleToken\<close> (an interface only; no implementation of it is
  part of the repository). The spec asks for "a pull (debit-from-caller) primitive and a
  push (credit-to-caller) primitive" on confidential assets: a transfer moves the amount
  when the holder's balance covers it and moves 0 otherwise, without reverting, and
  returns the amount moved.
\<close>

record ctoken =
  confidentialBalanceOf :: "address \<Rightarrow> euint64"

definition confidential_move ::
  "ctoken \<Rightarrow> address \<Rightarrow> address \<Rightarrow> euint64 \<Rightarrow> euint64 \<times> ctoken" where
  "confidential_move t from to amount =
     (let moved = TFHE_select (TFHE_ge (confidentialBalanceOf t from) amount) amount 0;
          b1 = (confidentialBalanceOf t)(from := TFHE_sub (confidentialBalanceOf t from) moved);
          b2 = b1(to := TFHE_add (b1 to) moved)
      in (moved, t\<lparr>confidentialBalanceOf := b2\<rparr>))"

definition confidentialTransferFrom ::
  "ctoken \<Rightarrow> address \<Rightarrow> address \<Rightarrow> euint64 \<Rightarrow> euint64 \<times> ctoken" where
  "confidentialTransferFrom t sender recipient amount = confidential_move t sender recipient amount"

definition confidentialTransfer ::
  "ctoken \<Rightarrow> address \<Rightarrow> address \<Rightarrow> euint64 \<Rightarrow> euint64 \<times> ctoken" where
  "confidentialTransfer t self recipient amount = confidential_move t self recipient amount"

datatype private_event =
    LiquidityAdded_enc address
  | LiquidityRemoved_enc address
  | SwapExecuted address address address address
  | FeeUpdated_enc nat nat
  | QuoteCalculated address address
  | EmergencyWithdraw address nat
  | Paused_enc address
  | Unpaused_enc address

text \<open>
  The storage of \<open>PrivateSwap\<close>: \<open>encReserveA\<close> and \<open>encReserveB\<close> are \<open>_reserveA\<close>
  and \<open>_reserveB\<close>, \<open>lastNumerator\<close> and \<open>lastDenominator\<close> are the mappings
  \<open>_lastNumerator\<close> and \<open>_lastDenominator\<close>, \<open>encLedgerA\<close> and \<open>encLedgerB\<close> are the
  storage of the two token contracts, \<open>encEvents\<close> is the log.
\<close>

record PrivateSwap = pool +
  encLedgerA :: ctoken
  encLedgerB :: ctoken
  encReserveA :: "euint64 option"
  encReserveB :: "euint64 option"
  swapFee :: nat
  lastNumerator :: "address \<Rightarrow> euint64 option"
  lastDenominator :: "address \<Rightarrow> euint64 option"
  encEvents :: "private_event list"

definition MAX_FEE :: nat where
  "MAX_FEE = 1000"

text \<open>\<open>setSwapFee\<close>, \<open>pause\<close>, \<open>unpause\<close> and \<open>emergencyWithdraw\<close> (external, \<open>onlyOwner\<close>).\<close>

definition setSwapFee_body :: "address \<Rightarrow> nat \<Rightarrow> PrivateSwap \<Rightarrow> error + (unit \<times> PrivateSwap)" where
  "setSwapFee_body sender newFee s =
     (if sender \<noteq> owner s then Inl Unauthorized
      else if \<not> newFee \<le> MAX_FEE then Inl FeeOutOfRange
      else
        let oldFee = swapFee s
        in Inr ((), s\<lparr>swapFee := newFee, encEvents := encEvents s @ [FeeUpdated_enc oldFee newFee]\<rparr>))"

definition setSwapFee :: "address \<Rightarrow> nat \<Rightarrow> PrivateSwap \<Rightarrow> (error + unit) \<times> PrivateSwap" where
  "setSwapFee sender newFee = transact (setSwapFee_body sender newFee)"

definition PrivateSwap_pause_body :: "address \<Rightarrow> PrivateSwap \<Rightarrow> error + (unit \<times> PrivateSwap)" where
  "PrivateSwap_pause_body sender s =
     (if sender \<noteq> owner s then Inl Unauthorized
      else if paused s then Inl PoolPaused
      else Inr ((), s\<lparr>paused := True, encEvents := encEvents s @ [Paused_enc sender]\<rparr>))"

definition PrivateSwap_pause :: "address \<Rightarrow> PrivateSwap \<Rightarrow> (error + unit) \<times> PrivateSwap" where
  "PrivateSwap_pause sender = transact (PrivateSwap_pause_body sender)"

definition PrivateSwap_unpause_body :: "address \<Rightarrow> PrivateSwap \<Rightarrow> error + (unit \<times> PrivateSwap)" where
  "PrivateSwap_unpause_body sender s =
     (if sender \<noteq> owner s then Inl Unauthorized
      else if \<not> paused s then Inl NotPaused
      else Inr ((), s\<lparr>paused := False, encEvents := encEvents s @ [Unpaused_enc sender]\<rparr>))"

definition PrivateSwap_unpause :: "address \<Rightarrow> PrivateSwap \<Rightarrow> (error + unit) \<times> PrivateSwap" where
  "PrivateSwap_unpause sender = transact (PrivateSwap_unpause_body sender)"

definition emergencyWithdraw_body ::
  "address \<Rightarrow> address \<Rightarrow> nat \<Rightarrow> PrivateSwap \<Rightarrow> error + (unit \<times> PrivateSwap)" where
  "emergencyWithdraw_body sender token amount s =
     (if sender \<noteq> owner s then Inl Unauthorized
      else if \<not> amount > 0 then Inl InvalidAmount
      else Inr ((), s\<lparr>encEvents := encEvents s @ [EmergencyWithdraw token amount]\<rparr>))"

definition emergencyWithdraw ::
  "address \<Rightarrow> address \<Rightarrow> nat \<Rightarrow> PrivateSwap \<Rightarrow> (error + unit) \<times> PrivateSwap" where
  "emergencyWithdraw sender token amount = transact (emergencyWithdraw_body sender token amount)"

text \<open>\<open>addLiquidity\<close> (external, \<open>whenNotPaused nonReentrant\<close>).\<close>

definition PrivateSwap_addLiquidity_body ::
  "address \<Rightarrow> euint64 \<Rightarrow> euint64 \<Rightarrow> PrivateSwap \<Rightarrow> error + (unit \<times> PrivateSwap)" where
  "PrivateSwap_addLiquidity_body sender amountA amountB s =
     (if paused s then Inl PoolPaused
      else
        ebind (TFHE_asEuint64 amountA) (\<lambda>decryptedAmountA.
        ebind (TFHE_asEuint64 amountB) (\<lambda>decryptedAmountB.
        let lA = snd (confidentialTransferFrom (encLedgerA s) sender (this s) decryptedAmountA);
            lB = snd (confidentialTransferFrom (encLedgerB s) sender (this s) decryptedAmountB);
            (rA, rB) =
              (if \<not> isInitialized (encReserveA s)
               then (Some decryptedAmountA, Some decryptedAmountB)
               else (Some (TFHE_add (plain (encReserveA s)) decryptedAmountA),
                     Some (TFHE_add (plain (encReserveB s)) decryptedAmountB)))
        in Inr ((),
                s\<lparr>encLedgerA := lA, encLedgerB := lB, encReserveA := rA, encReserveB := rB,
                  encEvents := encEvents s @ [LiquidityAdded_enc sender]\<rparr>))))"

definition PrivateSwap_addLiquidity ::
  "address \<Rightarrow> euint64 \<Rightarrow> euint64 \<Rightarrow> PrivateSwap \<Rightarrow> (error + unit) \<times> PrivateSwap" where
  "PrivateSwap_addLiquidity sender amountA amountB =
     transact (PrivateSwap_addLiquidity_body sender amountA amountB)"

text \<open>\<open>removeLiquidity\<close> (external, \<open>whenNotPaused nonReentrant\<close>).\<close>

definition PrivateSwap_removeLiquidity_body ::
  "address \<Rightarrow> euint64 \<Rightarrow> euint64 \<Rightarrow> PrivateSwap \<Rightarrow> error + (unit \<times> PrivateSwap)" where
  "PrivateSwap_removeLiquidity_body sender amountA amountB s =
     (if paused s then Inl PoolPaused
      else if \<not> isInitialized (encReserveA s) then Inl ReservesNotInitialized
      else if \<not> isInitialized (encReserveB s) then Inl ReservesNotInitialized
      else
        ebind (TFHE_asEuint64 amountA) (\<lambda>decryptedAmountA.
        ebind (TFHE_asEuint64 amountB) (\<lambda>decryptedAmountB.
        let hasEnoughA = TFHE_ge (plain (encReserveA s)) decryptedAmountA;
            hasEnoughB = TFHE_ge (plain (encReserveB s)) decryptedAmountB;
            hasEnoughReserves = TFHE_and hasEnoughA hasEnoughB;
            actualAmountA = TFHE_select hasEnoughReserves decryptedAmountA 0;
            actualAmountB = TFHE_select hasEnoughReserves decryptedAmountB 0;
            lA = snd (confidentialTransfer (encLedgerA s) (this s) sender actualAmountA);
            lB = snd (confidentialTransfer (encLedgerB s) (this s) sender actualAmountB);
            rA = TFHE_sub (plain (encReserveA s)) actualAmountA;
            rB = TFHE_sub (plain (encReserveB s)) actualAmountB
        in Inr ((),
                s\<lparr>encLedgerA := lA, encLedgerB := lB, encReserveA := Some rA, encReserveB := Some rB,
                  encEvents := encEvents s @ [LiquidityRemoved_enc sender]\<rparr>))))"

definition PrivateSwap_removeLiquidity ::
  "address \<Rightarrow> euint64 \<Rightarrow> euint64 \<Rightarrow> PrivateSwap \<Rightarrow> (error + unit) \<times> PrivateSwap" where
  "PrivateSwap_removeLiquidity sender amountA amountB =
     transact (PrivateSwap_removeLiquidity_body sender amountA amountB)"

text \<open>
  \<open>getQuote\<close> (external, no modifier). The arithmetic that follows the conversion of the
  input and the selection of the reserves is \<open>getQuote_amounts\<close>, which returns
  \<open>(numerator, denominator)\<close>: \<open>FEE_DENOMINATOR - swapFee\<close> is checked \<open>uint256\<close>
  arithmetic, the casts to \<open>uint64\<close> truncate, and the products and the sum are the
  64-bit operations \<open>TFHE.mul\<close> and \<open>TFHE.add\<close>.
\<close>

definition getQuote_amounts ::
  "nat \<Rightarrow> euint64 \<Rightarrow> euint64 \<Rightarrow> euint64 \<Rightarrow> error + (euint64 \<times> euint64)" where
  "getQuote_amounts fee encryptedAmountIn reserveIn reserveOut =
     ebind (checked_sub FEE_DENOMINATOR fee) (\<lambda>d.
     let feeMultiplier = (word_of_nat d :: 64 word);
         amountInWithFee = TFHE_mul encryptedAmountIn feeMultiplier;
         numerator = TFHE_mul amountInWithFee reserveOut;
         denominator = TFHE_add (TFHE_mul reserveIn (word_of_nat FEE_DENOMINATOR)) amountInWithFee
     in Inr (numerator, denominator))"

definition getQuote_body ::
  "address \<Rightarrow> euint64 \<Rightarrow> bool \<Rightarrow> PrivateSwap \<Rightarrow> error + (unit \<times> PrivateSwap)" where
  "getQuote_body sender amountIn isAtoB s =
     (if \<not> isInitialized (encReserveA s) then Inl ReservesNotInitialized
      else if \<not> isInitialized (encReserveB s) then Inl ReservesNotInitialized
      else
        ebind (TFHE_asEuint64 amountIn) (\<lambda>encryptedAmountIn.
        let reserveIn = plain (if isAtoB then encReserveA s else encReserveB s);
            reserveOut = plain (if isAtoB then encReserveB s else encReserveA s)
        in
        ebind (getQuote_amounts (swapFee s) encryptedAmountIn reserveIn reserveOut)
          (\<lambda>(numerator, denominator).
        Inr ((),
             s\<lparr>lastNumerator := (lastNumerator s)(sender := Some numerator),
               lastDenominator := (lastDenominator s)(sender := Some denominator),
               encEvents := encEvents s @
                 [QuoteCalculated sender (if isAtoB then tokenA s else tokenB s)]\<rparr>))))"

definition getQuote ::
  "address \<Rightarrow> euint64 \<Rightarrow> bool \<Rightarrow> PrivateSwap \<Rightarrow> (error + unit) \<times> PrivateSwap" where
  "getQuote sender amountIn isAtoB = transact (getQuote_body sender amountIn isAtoB)"

text \<open>\<open>getEncryptedNumerator\<close> and \<open>getEncryptedDenominator\<close> (external view).\<close>

definition getEncryptedNumerator :: "address \<Rightarrow> PrivateSwap \<Rightarrow> euint64 option" where
  "getEncryptedNumerator sender s = lastNumerator s sender"

definition getEncryptedDenominator :: "address \<Rightarrow> PrivateSwap \<Rightarrow> euint64 option" where
  "getEncryptedDenominator sender s = lastDenominator s sender"

text \<open>
  \<open>swap\<close> (external, \<open>whenNotPaused nonReentrant\<close>). The encrypted slippage check
  and the two selections that follow it are \<open>swap_actual_amounts\<close>, which returns
  \<open>(actualTransferAmount, actualInputAmount)\<close>.
\<close>

definition swap_actual_amounts :: "euint64 \<Rightarrow> euint64 \<Rightarrow> euint64 \<Rightarrow> euint64 \<times> euint64" where
  "swap_actual_amounts decryptedAmountIn decryptedExpectedAmountOut decryptedMinAmountOut =
     (let isAmountSufficient = TFHE_ge decryptedExpectedAmountOut decryptedMinAmountOut;
          actualTransferAmount = TFHE_select isAmountSufficient decryptedExpectedAmountOut 0;
          actualInputAmount = TFHE_select isAmountSufficient decryptedAmountIn 0
      in (actualTransferAmount, actualInputAmount))"

definition PrivateSwap_swap_body ::
  "address \<Rightarrow> euint64 \<Rightarrow> euint64 \<Rightarrow> euint64 \<Rightarrow> bool \<Rightarrow> PrivateSwap \<Rightarrow> error + (unit \<times> PrivateSwap)" where
  "PrivateSwap_swap_body sender amountIn expectedAmountOut minAmountOut isAtoB s =
     (if paused s then Inl PoolPaused
      else if \<not> isInitialized (encReserveA s) then Inl ReservesNotInitialized
      else if \<not> isInitialized (encReserveB s) then Inl ReservesNotInitialized
      else
        ebind (TFHE_asEuint64 amountIn) (\<lambda>decryptedAmountIn.
        ebind (TFHE_asEuint64 expectedAmountOut) (\<lambda>decryptedExpectedAmountOut.
        ebind (TFHE_asEuint64 minAmountOut) (\<lambda>decryptedMinAmountOut.
        let (actualTransferAmount, actualInputAmount) =
              swap_actual_amounts decryptedAmountIn decryptedExpectedAmountOut
                decryptedMinAmountOut
        in
        if isAtoB then
          let lA = snd (confidentialTransferFrom (encLedgerA s) sender (this s) actualInputAmount);
              rA = TFHE_add (plain (encReserveA s)) actualInputAmount;
              rB = TFHE_sub (plain (encReserveB s)) actualTransferAmount;
              lB = snd (confidentialTransfer (encLedgerB s) (this s) sender actualTransferAmount)
          in Inr ((),
                  s\<lparr>encLedgerA := lA, encLedgerB := lB, encReserveA := Some rA, encReserveB := Some rB,
                    encEvents := encEvents s @ [SwapExecuted sender (tokenA s) (tokenB s) sender]\<rparr>)
        else
          let lB = snd (confidentialTransferFrom (encLedgerB s) sender (this s) actualInputAmount);
              rB = TFHE_add (plain (encReserveB s)) actualInputAmount;
              rA = TFHE_sub (plain (encReserveA s)) actualTransferAmount;
              lA = snd (confidentialTransfer (encLedgerA s) (this s) sender actualTransferAmount)
          in Inr ((),
                  s\<lparr>encLedgerA := lA, encLedgerB := lB, encReserveA := Some rA, encReserveB := Some rB,
                    encEvents := encEvents s @ [SwapExecuted sender (tokenB s) (tokenA s) sender]\<rparr>)))))"

definition PrivateSwap_swap ::
  "address \<Rightarrow> euint64 \<Rightarrow> euint64 \<Rightarrow> euint64 \<Rightarrow> bool \<Rightarrow> PrivateSwap \<Rightarrow> (error + unit) \<times> PrivateSwap" where
  "PrivateSwap_swap sender amountIn expectedAmountOut minAmountOut isAtoB =
     transact (PrivateSwap_swap_body sender amountIn expectedAmountOut minAmountOut isAtoB)"

section \<open>Specification-side definitions and concrete pools\<close>

text \<open>
  The formula as the specification words it, on unbounded natural numbers:
  \<open>amountInAfterFee = amountIn - floor(amountIn * feeBps / 10000)\<close> and
  \<open>amountOut = floor(amountInAfterFee * reserveOut / (reserveIn + amountInAfterFee))\<close>.
  It is compared below with \<open>calculateSwap\<close> and \<open>quote\<close>, which come from the source.
\<close>

definition spec_computeOutput :: "nat \<Rightarrow> nat \<Rightarrow> nat \<Rightarrow> nat \<Rightarrow> nat" where
  "spec_computeOutput reserveIn reserveOut amountIn feeBps =
     (let amountInAfterFee = amountIn - amountIn * feeBps div 10000
      in amountInAfterFee * reserveOut div (reserveIn + amountInAfterFee))"

text \<open>
  The intermediate values of the formula fit \<open>uint256\<close>: neither product and neither
  sum overflows, and the fee does not exceed the amount.
\<close>

definition formula_in_range :: "nat \<Rightarrow> nat \<Rightarrow> nat \<Rightarrow> nat \<Rightarrow> bool" where
  "formula_in_range reserveIn reserveOut amountIn feeBps =
     (let amountInAfterFee = amountIn - amountIn * feeBps div 10000
      in amountIn * feeBps \<le> uint256_max
         \<and> amountIn * feeBps div 10000 \<le> amountIn
         \<and> amountInAfterFee * reserveOut \<le> uint256_max
         \<and> reserveIn + amountInAfterFee \<le> uint256_max)"

text \<open>Both reserves of the transparent pool are non-zero.\<close>

definition reserves_positive :: "DemoSwap \<Rightarrow> bool" where
  "reserves_positive s = (reserveA s > 0 \<and> reserveB s > 0)"

text \<open>
  Concrete pools. Addresses: 1 is the owner, 2 the pool contract, 3 and 4 the two tokens,
  5 a trader who holds tokens and has approved the pool. \<open>scenarioA\<close> is the pool of the
  specification's Scenario A (reserves 1,000,000 and 500,000, fee 30); \<open>evenPool\<close> has
  reserves 30 and 10,000; \<open>smallPool\<close> has reserves 1 and 1,000; \<open>deepPool\<close> has
  reserves 100,000,000,000 and 26,000,000. \<open>deployedPrivate\<close> is the confidential pool
  as its constructor leaves it: not paused, fee 30, reserves uninitialised, no quote stored.
\<close>

definition trader :: address where
  "trader = 5"

definition trader_ledger :: "nat \<Rightarrow> erc20" where
  "trader_ledger poolBalance =
     \<lparr>balanceOf = (\<lambda>a. 0)(2 := poolBalance, 5 := 1000000),
      allowance = (\<lambda>a b. 0)(5 := (\<lambda>b. 0)(2 := 1000000))\<rparr>"

definition demo_pool :: "nat \<Rightarrow> nat \<Rightarrow> DemoSwap" where
  "demo_pool rA rB =
     \<lparr>owner = 1, paused = False, this = 2, tokenA = 3, tokenB = 4,
      ledgerA = trader_ledger rA, ledgerB = trader_ledger rB,
      reserveA = rA, reserveB = rB, feeNumerator = 30, events = []\<rparr>"

definition scenarioA :: DemoSwap where
  "scenarioA = demo_pool 1000000 500000"

definition evenPool :: DemoSwap where
  "evenPool = demo_pool 30 10000"

definition smallPool :: DemoSwap where
  "smallPool = demo_pool 1 1000"

definition deepPool :: DemoSwap where
  "deepPool = demo_pool 100000000000 26000000"

definition trader_ctoken :: ctoken where
  "trader_ctoken = \<lparr>confidentialBalanceOf = (\<lambda>a. 0)(5 := 1000000)\<rparr>"

definition deployedPrivate :: PrivateSwap where
  "deployedPrivate =
     \<lparr>owner = 1, paused = False, this = 2, tokenA = 3, tokenB = 4,
      encLedgerA = trader_ctoken, encLedgerB = trader_ctoken,
      encReserveA = None, encReserveB = None, swapFee = 30,
      lastNumerator = (\<lambda>a. None), lastDenominator = (\<lambda>a. None), encEvents = []\<rparr>"

section \<open>Auxiliary facts\<close>

lemmas arith_defs = checked_mul_def checked_div_def checked_sub_def checked_add_def FEE_DENOMINATOR_def
lemmas token_defs = safeTransferFrom_def safeTransfer_def erc20_move_def
lemmas pool_defs = scenarioA_def evenPool_def smallPool_def deepPool_def demo_pool_def trader_ledger_def trader_def
  uint256_max_def
lemmas swap_defs = DemoSwap_swap_def transact_def DemoSwap_swap_body_def calculateSwap_def ebind_def

lemma ebind_Inr_iff: "(ebind m f = Inr y) = (\<exists>x. m = Inr x \<and> f x = Inr y)"
  by (cases m) (simp_all add: ebind_def)

lemma transact_Inr_iff: "(transact body s = (Inr r, s')) = (body s = Inr (r, s'))"
  by (cases "body s") (auto simp add: transact_def)

lemma transact_fst_Inr_iff: "(fst (transact body s) = Inr r) = (body s = Inr (r, snd (transact body s)))"
  by (cases "body s") (auto simp add: transact_def)

lemma checked_add_Inr_iff: "(checked_add a b = Inr c) = (a + b \<le> uint256_max \<and> c = a + b)"
  by (auto simp add: checked_add_def)

lemma checked_sub_Inr_iff: "(checked_sub a b = Inr c) = (b \<le> a \<and> c = a - b)"
  by (auto simp add: checked_sub_def)

lemma checked_mul_Inr_iff: "(checked_mul a b = Inr c) = (a * b \<le> uint256_max \<and> c = a * b)"
  by (auto simp add: checked_mul_def)

lemma checked_div_Inr_iff: "(checked_div a b = Inr c) = (b \<noteq> 0 \<and> c = a div b)"
  by (auto simp add: checked_div_def)

lemmas Inr_iffs = ebind_Inr_iff checked_add_Inr_iff checked_sub_Inr_iff checked_mul_Inr_iff
  checked_div_Inr_iff

lemma calculateSwap_eq:
  "calculateSwap s aToB amountIn =
     (let rIn = (if aToB then reserveA s else reserveB s);
          rOut = (if aToB then reserveB s else reserveA s);
          x = amountIn - amountIn * feeNumerator s div 10000
      in if formula_in_range rIn rOut amountIn (feeNumerator s) \<and> rIn + x \<noteq> 0
         then Inr (spec_computeOutput rIn rOut amountIn (feeNumerator s), rIn + x)
         else Inl ArithmeticPanic)"
  by (simp add: calculateSwap_def ebind_def arith_defs Let_def formula_in_range_def
      spec_computeOutput_def)

lemma calculateSwap_Inr_iff:
  "(calculateSwap s aToB amountIn = Inr (out, nr)) =
     (let rIn = (if aToB then reserveA s else reserveB s);
          rOut = (if aToB then reserveB s else reserveA s);
          x = amountIn - amountIn * feeNumerator s div 10000
      in formula_in_range rIn rOut amountIn (feeNumerator s) \<and> rIn + x \<noteq> 0
         \<and> out = x * rOut div (rIn + x) \<and> nr = rIn + x)"
  by (auto simp add: calculateSwap_eq Let_def spec_computeOutput_def)

lemma quote_formula:
  assumes "0 < reserveA s" "0 < reserveB s" "0 < amountIn"
  shows "quote s aToB amountIn =
           (let reserveIn = (if aToB then reserveA s else reserveB s);
                reserveOut = (if aToB then reserveB s else reserveA s)
            in if formula_in_range reserveIn reserveOut amountIn (feeNumerator s)
               then Inr (spec_computeOutput reserveIn reserveOut amountIn (feeNumerator s))
               else Inl ArithmeticPanic)"
  using assms by (simp add: quote_def calculateSwap_eq ebind_def Let_def)

section \<open>The transparent formula (C2)\<close>

text \<open>
  C2, as amended. For reserves and an amount that are not zero, \<open>quote\<close> (and with it
  \<open>_calculateSwap\<close>) returns the amount of the specification's formula exactly when the
  intermediate values fit \<open>uint256\<close>; otherwise the call reverts with an arithmetic
  panic. On the pool of Scenario A an input of 10,000 gives 4,935.
\<close>

theorem quote_is_formula_in_range:
  assumes "0 < reserveA s" "0 < reserveB s" "0 < amountIn"
  shows "quote s aToB amountIn =
           (let reserveIn = (if aToB then reserveA s else reserveB s);
                reserveOut = (if aToB then reserveB s else reserveA s)
            in if formula_in_range reserveIn reserveOut amountIn (feeNumerator s)
               then Inr (spec_computeOutput reserveIn reserveOut amountIn (feeNumerator s))
               else Inl ArithmeticPanic)
         \<and> calculateSwap s aToB amountIn =
           (let reserveIn = (if aToB then reserveA s else reserveB s);
                reserveOut = (if aToB then reserveB s else reserveA s)
            in if formula_in_range reserveIn reserveOut amountIn (feeNumerator s)
               then Inr (spec_computeOutput reserveIn reserveOut amountIn (feeNumerator s),
                         reserveIn + (amountIn - amountIn * feeNumerator s div 10000))
               else Inl ArithmeticPanic)
         \<and> quote scenarioA True 10000 = Inr 4935"
proof (intro conjI)
  show "quote scenarioA True 10000 = Inr 4935"
    by (simp add: quote_def calculateSwap_def pool_defs ebind_def arith_defs)
  show "calculateSwap s aToB amountIn =
           (let reserveIn = (if aToB then reserveA s else reserveB s);
                reserveOut = (if aToB then reserveB s else reserveA s)
            in if formula_in_range reserveIn reserveOut amountIn (feeNumerator s)
               then Inr (spec_computeOutput reserveIn reserveOut amountIn (feeNumerator s),
                         reserveIn + (amountIn - amountIn * feeNumerator s div 10000))
               else Inl ArithmeticPanic)"
    using assms by (simp add: calculateSwap_eq Let_def)
qed (rule quote_formula [OF assms])

theorem quote_is_formula_in_range_witness:
  "0 < reserveA scenarioA \<and> 0 < reserveB scenarioA \<and> (0::nat) < 10000
   \<and> formula_in_range 500000 1000000 10000 30
   \<and> quote scenarioA False 10000 = Inr 19550
   \<and> spec_computeOutput 500000 1000000 10000 30 = 19550"
  using quote_is_formula_in_range [of scenarioA 10000 False]
  by (simp add: pool_defs formula_in_range_def spec_computeOutput_def)

theorem quote_overflow_counterexample:
  "0 < reserveA scenarioA \<and> 0 < reserveB scenarioA \<and> 0 < uint256_max
   \<and> quote scenarioA True uint256_max = Inl ArithmeticPanic
   \<and> quote scenarioA True uint256_max
       \<noteq> Inr (spec_computeOutput (reserveA scenarioA) (reserveB scenarioA) uint256_max
                (feeNumerator scenarioA))"
  by (simp add: quote_def calculateSwap_def pool_defs ebind_def arith_defs)

section \<open>Slippage abort of the transparent swap (C4)\<close>

text \<open>
  C4. A transparent swap with a non-zero amount on a pool that is not paused and has both
  reserves non-zero, whose computed \<open>amountOut\<close> is below \<open>minAmountOut\<close>, reverts with
  \<open>SlippageExceeded\<close> and leaves the whole state (reserves, fee, both token ledgers) as
  it was. On the pool of Scenario A, a swap of 10,000 with \<open>minAmountOut = 5,000\<close> does so.
\<close>

theorem swap_slippage_aborts:
  "(\<not> paused s \<and> 0 < amountIn \<and> 0 < reserveA s \<and> 0 < reserveB s
      \<and> calculateSwap s aToB amountIn = Inr (amountOut, newReserveIn)
      \<and> amountOut < minAmountOut
     \<longrightarrow> DemoSwap_swap c aToB amountIn minAmountOut s = (Inl SlippageExceeded, s))
   \<and> DemoSwap_swap trader True 10000 5000 scenarioA = (Inl SlippageExceeded, scenarioA)"
proof
  show "\<not> paused s \<and> 0 < amountIn \<and> 0 < reserveA s \<and> 0 < reserveB s
      \<and> calculateSwap s aToB amountIn = Inr (amountOut, newReserveIn)
      \<and> amountOut < minAmountOut
     \<longrightarrow> DemoSwap_swap c aToB amountIn minAmountOut s = (Inl SlippageExceeded, s)"
    by (simp add: DemoSwap_swap_def transact_def DemoSwap_swap_body_def ebind_def)
  show "DemoSwap_swap trader True 10000 5000 scenarioA = (Inl SlippageExceeded, scenarioA)"
    by (simp add: swap_defs pool_defs arith_defs)
qed

theorem swap_slippage_aborts_witness:
  "\<not> paused scenarioA \<and> (0::nat) < 10000 \<and> 0 < reserveA scenarioA \<and> 0 < reserveB scenarioA
   \<and> calculateSwap scenarioA False 10000 = Inr (19550, 509970)
   \<and> (19550::nat) < 25000
   \<and> DemoSwap_swap trader False 10000 25000 scenarioA = (Inl SlippageExceeded, scenarioA)"
proof -
  have c: "calculateSwap scenarioA False 10000 = Inr (19550, 509970)"
    by (simp add: calculateSwap_def pool_defs ebind_def arith_defs)
  have g: "\<not> paused scenarioA \<and> (0::nat) < 10000 \<and> 0 < reserveA scenarioA \<and> 0 < reserveB scenarioA"
    by (simp add: pool_defs)
  show ?thesis
    using swap_slippage_aborts [of scenarioA 10000 False 19550 509970 25000 trader] c g
    by simp
qed

section \<open>The reserve product across a transparent swap (C6)\<close>

text \<open>What a successful swap requires and what it does to the reserves.\<close>

lemma swap_body_success:
  assumes "DemoSwap_swap_body c aToB amountIn minOut s = Inr (out, s')"
  shows "\<not> paused s \<and> 0 < reserveA s \<and> 0 < reserveB s \<and> 0 < amountIn \<and> minOut \<le> out \<and>
         (\<exists>nr. calculateSwap s aToB amountIn = Inr (out, nr)) \<and>
         (if aToB
          then reserveA s' = reserveA s + (amountIn - amountIn * feeNumerator s div 10000)
               \<and> reserveB s' = reserveB s - out
          else reserveB s' = reserveB s + (amountIn - amountIn * feeNumerator s div 10000)
               \<and> reserveA s' = reserveA s - out)"
proof -
  from assms have g: "\<not> paused s" "0 < amountIn" "0 < reserveA s" "0 < reserveB s"
    by (simp_all add: DemoSwap_swap_body_def split: if_splits)
  from assms g obtain nr where cs: "calculateSwap s aToB amountIn = Inr (out, nr)"
    and rest: "minOut \<le> out"
      "(if aToB
          then reserveA s' = reserveA s + (amountIn - amountIn * feeNumerator s div 10000)
               \<and> reserveB s' = reserveB s - out
          else reserveB s' = reserveB s + (amountIn - amountIn * feeNumerator s div 10000)
               \<and> reserveA s' = reserveA s - out)"
    by (auto simp add: DemoSwap_swap_body_def Inr_iffs FEE_DENOMINATOR_def split: if_splits)
  show ?thesis using g cs rest by blast
qed

lemma swap_success_reserves:
  assumes "DemoSwap_swap c aToB amountIn minOut s = (Inr out, s')"
  defines "x \<equiv> amountIn - amountIn * feeNumerator s div 10000"
  shows "0 < reserveA s \<and> 0 < reserveB s \<and> 0 < amountIn \<and>
         (if aToB
          then out = x * reserveB s div (reserveA s + x)
               \<and> reserveA s' = reserveA s + x \<and> reserveB s' = reserveB s - out
          else out = x * reserveA s div (reserveB s + x)
               \<and> reserveB s' = reserveB s + x \<and> reserveA s' = reserveA s - out)"
proof -
  from assms(1) have b: "DemoSwap_swap_body c aToB amountIn minOut s = Inr (out, s')"
    by (simp add: DemoSwap_swap_def transact_Inr_iff)
  note h = swap_body_success [OF b]
  then obtain nr where "calculateSwap s aToB amountIn = Inr (out, nr)" by blast
  then have "out = (if aToB then x * reserveB s div (reserveA s + x)
                    else x * reserveA s div (reserveB s + x))"
    by (simp add: calculateSwap_Inr_iff Let_def x_def)
  with h show ?thesis by (simp add: x_def split: if_splits)
qed

lemma quotient_less:
  fixes x rIn rOut :: nat
  assumes "0 < rIn" "0 < rOut"
  shows "x * rOut div (rIn + x) < rOut"
proof -
  have "x * rOut < rOut * (rIn + x)" using assms by (simp add: algebra_simps)
  then show ?thesis using assms by (simp add: less_mult_imp_div_less)
qed

lemma product_after:
  fixes x rIn rOut :: nat
  assumes "0 < rIn"
  shows "(rIn + x) * (rOut - x * rOut div (rIn + x)) = rIn * rOut + (x * rOut) mod (rIn + x)"
proof -
  define d where "d = rIn + x"
  define n where "n = x * rOut"
  have dq: "d * (n div d) = n - n mod d"
    by (simp add: minus_mod_eq_mult_div)
  have "d * (rOut - n div d) = d * rOut - d * (n div d)"
    by (simp add: diff_mult_distrib2)
  also have "\<dots> = d * rOut - (n - n mod d)" by (simp add: dq)
  also have "d * rOut = rIn * rOut + n" by (simp add: d_def n_def algebra_simps)
  also have "rIn * rOut + n - (n - n mod d) = rIn * rOut + n mod d"
    using mod_less_eq_dividend [of n d] by simp
  finally show ?thesis by (simp add: d_def n_def)
qed

lemma evenPool_swap:
  "fst (DemoSwap_swap trader True 10000 0 evenPool) = Inr 9970"
  "reserveA (snd (DemoSwap_swap trader True 10000 0 evenPool)) = 10000"
  "reserveB (snd (DemoSwap_swap trader True 10000 0 evenPool)) = 30"
  by (simp_all add: swap_defs pool_defs token_defs arith_defs)

lemma scenarioA_swap:
  "fst (DemoSwap_swap trader True 10000 0 scenarioA) = Inr 4935"
  by (simp add: swap_defs pool_defs token_defs arith_defs)

text \<open>
  C6, as amended. After a successful transparent swap the product of the reserves is the
  product before plus the remainder of the formula's division,
  \<open>(amountInAfterFee * reserveOut) mod (reserveIn + amountInAfterFee)\<close>: it never
  decreases, and it grows exactly when that division leaves a remainder. (The fee is kept
  out of the reserves, so a positive fee alone does not make the product grow.)
\<close>

theorem swap_product_grows_by_remainder:
  assumes "DemoSwap_swap c aToB amountIn minAmountOut s = (Inr amountOut, s')"
  shows "(let reserveIn = (if aToB then reserveA s else reserveB s);
              reserveOut = (if aToB then reserveB s else reserveA s);
              amountInAfterFee = amountIn - amountIn * feeNumerator s div 10000
          in reserveA s' * reserveB s' =
               reserveA s * reserveB s
               + (amountInAfterFee * reserveOut) mod (reserveIn + amountInAfterFee))
         \<and> reserveA s' * reserveB s' \<ge> reserveA s * reserveB s"
proof -
  note h = swap_success_reserves [OF assms]
  define x where "x = amountIn - amountIn * feeNumerator s div 10000"
  have pos: "0 < reserveA s" "0 < reserveB s" using h by simp_all
  show ?thesis
  proof (cases aToB)
    case True
    then have "reserveA s' * reserveB s'
        = (reserveA s + x) * (reserveB s - x * reserveB s div (reserveA s + x))"
      using h by (simp add: x_def)
    also have "\<dots> = reserveA s * reserveB s + (x * reserveB s) mod (reserveA s + x)"
      by (rule product_after [OF pos(1)])
    finally show ?thesis using True by (simp add: x_def Let_def)
  next
    case False
    then have "reserveA s' * reserveB s'
        = (reserveB s + x) * (reserveA s - x * reserveA s div (reserveB s + x))"
      using h by (simp add: x_def mult.commute)
    also have "\<dots> = reserveB s * reserveA s + (x * reserveA s) mod (reserveB s + x)"
      by (rule product_after [OF pos(2)])
    finally show ?thesis using False by (simp add: x_def Let_def mult.commute)
  qed
qed

theorem swap_product_grows_by_remainder_witness:
  "DemoSwap_swap trader True 10000 0 scenarioA
     = (Inr 4935, snd (DemoSwap_swap trader True 10000 0 scenarioA))
   \<and> reserveA (snd (DemoSwap_swap trader True 10000 0 scenarioA))
       * reserveB (snd (DemoSwap_swap trader True 10000 0 scenarioA))
     = 1000000 * 500000 + 798050"
proof -
  have e: "DemoSwap_swap trader True 10000 0 scenarioA
     = (Inr 4935, snd (DemoSwap_swap trader True 10000 0 scenarioA))"
    by (simp add: prod_eq_iff scenarioA_swap)
  have v: "reserveA scenarioA = 1000000" "reserveB scenarioA = 500000" "feeNumerator scenarioA = 30"
    by (simp_all add: pool_defs)
  from swap_product_grows_by_remainder [OF e]
  have "reserveA (snd (DemoSwap_swap trader True 10000 0 scenarioA))
       * reserveB (snd (DemoSwap_swap trader True 10000 0 scenarioA))
     = 1000000 * 500000 + 798050"
    by (simp add: v Let_def)
  with e show ?thesis by blast
qed

theorem swap_product_unchanged_counterexample:
  "0 < reserveA evenPool \<and> 0 < reserveB evenPool \<and> 0 < feeNumerator evenPool \<and> (0::nat) < 10000
   \<and> fst (DemoSwap_swap trader True 10000 0 evenPool) = Inr 9970
   \<and> \<not> (reserveA (snd (DemoSwap_swap trader True 10000 0 evenPool))
          * reserveB (snd (DemoSwap_swap trader True 10000 0 evenPool))
        > reserveA evenPool * reserveB evenPool)"
proof -
  have v: "reserveA evenPool = 30" "reserveB evenPool = 10000" "feeNumerator evenPool = 30"
    by (simp_all add: pool_defs)
  show ?thesis by (simp add: evenPool_swap v)
qed

section \<open>Adding and removing the same liquidity (C9)\<close>

lemma erc20_move_success:
  assumes "erc20_move t from to val = Inr t'"
  shows "from \<noteq> 0 \<and> to \<noteq> 0 \<and> val \<le> balanceOf t' to"
  using assms by (auto simp add: erc20_move_def Let_def split: if_splits)

lemma safeTransferFrom_success:
  assumes "safeTransferFrom t self from to val = Inr t'"
  shows "from \<noteq> 0 \<and> to \<noteq> 0 \<and> val \<le> balanceOf t' to"
proof (cases "allowance t from self < uint256_max")
  case True
  with assms have "erc20_move
      (t\<lparr>allowance := (allowance t)(from := (allowance t from)(self := allowance t from self - val))\<rparr>)
      from to val = Inr t'"
    by (simp add: safeTransferFrom_def Let_def split: if_splits)
  then show ?thesis by (rule erc20_move_success)
next
  case False
  with assms have "erc20_move t from to val = Inr t'"
    by (simp add: safeTransferFrom_def Let_def)
  then show ?thesis by (rule erc20_move_success)
qed

lemma safeTransfer_succeeds:
  assumes "self \<noteq> 0" "to \<noteq> 0" "val \<le> balanceOf t self"
  shows "\<exists>t'. safeTransfer t self to val = Inr t'"
  using assms by (simp add: safeTransfer_def erc20_move_def Let_def)

lemma addLiquidity_success:
  assumes "DemoSwap_addLiquidity c a b s = (Inr (), s1)"
  shows "\<not> paused s1 \<and> this s1 = this s \<and> c \<noteq> 0 \<and> this s \<noteq> 0
         \<and> 0 < a \<and> 0 < b
         \<and> reserveA s1 = reserveA s + a \<and> reserveB s1 = reserveB s + b
         \<and> a \<le> balanceOf (ledgerA s1) (this s) \<and> b \<le> balanceOf (ledgerB s1) (this s)"
proof -
  from assms have b: "DemoSwap_addLiquidity_body c a b s = Inr ((), s1)"
    by (simp add: DemoSwap_addLiquidity_def transact_Inr_iff)
  then have g: "\<not> paused s" "0 < a" "0 < b"
    by (simp_all add: DemoSwap_addLiquidity_body_def split: if_splits)
  from b g obtain lA lB where
    tA: "safeTransferFrom (ledgerA s) (this s) c (this s) a = Inr lA" and
    tB: "safeTransferFrom (ledgerB s) (this s) c (this s) b = Inr lB" and
    s1: "s1 = s\<lparr>ledgerA := lA, ledgerB := lB, reserveA := reserveA s + a,
                 reserveB := reserveB s + b,
                 events := events s @ [LiquidityAdded c a b]\<rparr>"
    by (auto simp add: DemoSwap_addLiquidity_body_def Inr_iffs)
  show ?thesis
    using g safeTransferFrom_success [OF tA] safeTransferFrom_success [OF tB]
    by (simp add: s1)
qed

lemma removeLiquidity_succeeds:
  assumes "\<not> paused s" "a \<le> reserveA s" "b \<le> reserveB s" "c \<noteq> 0" "this s \<noteq> 0"
    "a \<le> balanceOf (ledgerA s) (this s)" "b \<le> balanceOf (ledgerB s) (this s)"
  shows "fst (DemoSwap_removeLiquidity c a b s) = Inr ()
         \<and> reserveA (snd (DemoSwap_removeLiquidity c a b s)) = reserveA s - a
         \<and> reserveB (snd (DemoSwap_removeLiquidity c a b s)) = reserveB s - b"
proof -
  from safeTransfer_succeeds [OF assms(5) assms(4) assms(6)]
  obtain lA where tA: "safeTransfer (ledgerA s) (this s) c a = Inr lA" by blast
  from safeTransfer_succeeds [OF assms(5) assms(4) assms(7)]
  obtain lB where tB: "safeTransfer (ledgerB s) (this s) c b = Inr lB" by blast
  show ?thesis
    using assms(1-3) tA tB
    by (simp add: DemoSwap_removeLiquidity_def transact_def DemoSwap_removeLiquidity_body_def
        ebind_def checked_sub_def)
qed

lemma scenarioA_addLiquidity:
  "fst (DemoSwap_addLiquidity trader 700 300 scenarioA) = Inr ()"
  by (simp add: DemoSwap_addLiquidity_def transact_def DemoSwap_addLiquidity_body_def ebind_def
      pool_defs token_defs arith_defs)

text \<open>
  C9. When \<open>addLiquidity(a, b)\<close> with \<open>a > 0\<close> and \<open>b > 0\<close> has succeeded, an
  immediately following \<open>removeLiquidity(a, b)\<close> by the same caller succeeds and leaves
  \<open>reserveA\<close> and \<open>reserveB\<close> at exactly their values before the addition.
\<close>

theorem add_then_remove_restores_reserves:
  assumes "0 < a" "0 < b" "DemoSwap_addLiquidity c a b s = (Inr (), s1)"
  shows "fst (DemoSwap_removeLiquidity c a b s1) = Inr ()
         \<and> reserveA (snd (DemoSwap_removeLiquidity c a b s1)) = reserveA s
         \<and> reserveB (snd (DemoSwap_removeLiquidity c a b s1)) = reserveB s"
proof -
  note h = addLiquidity_success [OF assms(3)]
  have "fst (DemoSwap_removeLiquidity c a b s1) = Inr ()
         \<and> reserveA (snd (DemoSwap_removeLiquidity c a b s1)) = reserveA s1 - a
         \<and> reserveB (snd (DemoSwap_removeLiquidity c a b s1)) = reserveB s1 - b"
    by (rule removeLiquidity_succeeds) (use h in simp_all)
  then show ?thesis using h by simp
qed

theorem add_then_remove_restores_reserves_witness:
  "(0::nat) < 700 \<and> (0::nat) < 300
   \<and> fst (DemoSwap_addLiquidity trader 700 300 scenarioA) = Inr ()
   \<and> fst (DemoSwap_removeLiquidity trader 700 300
            (snd (DemoSwap_addLiquidity trader 700 300 scenarioA))) = Inr ()
   \<and> reserveA (snd (DemoSwap_removeLiquidity trader 700 300
            (snd (DemoSwap_addLiquidity trader 700 300 scenarioA)))) = 1000000
   \<and> reserveB (snd (DemoSwap_removeLiquidity trader 700 300
            (snd (DemoSwap_addLiquidity trader 700 300 scenarioA)))) = 500000"
proof -
  have e: "DemoSwap_addLiquidity trader 700 300 scenarioA
     = (Inr (), snd (DemoSwap_addLiquidity trader 700 300 scenarioA))"
    by (simp add: prod_eq_iff scenarioA_addLiquidity)
  have v: "reserveA scenarioA = 1000000" "reserveB scenarioA = 500000"
    by (simp_all add: pool_defs)
  from add_then_remove_restores_reserves [OF _ _ e] v scenarioA_addLiquidity
  show ?thesis by simp
qed

section \<open>Fee updates (C7)\<close>

lemmas private_defs = deployedPrivate_def trader_ctoken_def trader_def
lemmas tfhe_defs = TFHE_add_def TFHE_sub_def TFHE_mul_def TFHE_ge_def TFHE_and_def TFHE_select_def
  isInitialized_def plain_def
lemmas fhevm_defs = TFHE_asEuint64_def TFHEExecutorAddress_def

text \<open>
  C7, as amended. \<open>setSwapFee\<close> of the confidential pool succeeds exactly when the
  caller is the owner and the new fee is at most \<open>MAX_FEE = 1000\<close>; \<open>updateFee\<close> of the
  transparent pool succeeds exactly when the caller is the owner and the new fee is at most
  100. A successful call stores the new fee, which the formula reads from then on, and
  logs the update; a call by anyone else fails with \<open>Unauthorized\<close>, an owner's call
  above the bound fails with \<open>FeeOutOfRange\<close>, and a failed call leaves the state, the
  fee included, unchanged.
\<close>

theorem fee_update_bounds:
  "updateFee c newFee d =
     (if c = owner d \<and> newFee \<le> 100
      then (Inr (), d\<lparr>feeNumerator := newFee, events := events d @ [FeeUpdated newFee]\<rparr>)
      else (Inl (if c = owner d then FeeOutOfRange else Unauthorized), d))
   \<and> setSwapFee c' newFee' p =
     (if c' = owner p \<and> newFee' \<le> 1000
      then (Inr (), p\<lparr>swapFee := newFee',
                      encEvents := encEvents p @ [FeeUpdated_enc (swapFee p) newFee']\<rparr>)
      else (Inl (if c' = owner p then FeeOutOfRange else Unauthorized), p))"
  by (simp add: updateFee_def updateFee_body_def setSwapFee_def setSwapFee_body_def
      transact_def MAX_FEE_def Let_def)

theorem fee_update_bounds_witness:
  "updateFee 1 100 scenarioA
     = (Inr (), scenarioA\<lparr>feeNumerator := 100, events := [FeeUpdated 100]\<rparr>)
   \<and> quote (snd (updateFee 1 100 scenarioA)) True 10000 = Inr 4901
   \<and> setSwapFee 1 1000 deployedPrivate
     = (Inr (), deployedPrivate\<lparr>swapFee := 1000, encEvents := [FeeUpdated_enc 30 1000]\<rparr>)
   \<and> updateFee trader 100 scenarioA = (Inl Unauthorized, scenarioA)
   \<and> setSwapFee 1 1001 deployedPrivate = (Inl FeeOutOfRange, deployedPrivate)"
proof -
  have v: "owner scenarioA = 1" "events scenarioA = []" "trader \<noteq> 1"
    "owner deployedPrivate = 1" "encEvents deployedPrivate = []" "swapFee deployedPrivate = 30"
    by (simp_all add: pool_defs private_defs)
  have q: "quote (scenarioA\<lparr>feeNumerator := 100, events := [FeeUpdated 100]\<rparr>) True 10000
             = Inr 4901"
    by (simp add: quote_def calculateSwap_def ebind_def arith_defs pool_defs)
  from fee_update_bounds [of 1 100 scenarioA 1 1000 deployedPrivate]
    fee_update_bounds [of trader 100 scenarioA 1 1001 deployedPrivate] v q
  show ?thesis by simp
qed

theorem updateFee_rejects_500_counterexample:
  "(500::nat) \<le> MAX_FEE
   \<and> updateFee (owner scenarioA) 500 scenarioA = (Inl FeeOutOfRange, scenarioA)"
  by (simp add: updateFee_def updateFee_body_def transact_def MAX_FEE_def)

section \<open>Paused pools (C8)\<close>

text \<open>
  C8. While a pool is paused, \<open>swap\<close>, \<open>addLiquidity\<close> and \<open>removeLiquidity\<close> of
  either contract fail with \<open>PoolPaused\<close> and leave the state unchanged; \<open>quote\<close>
  returns what it returns on the same pool not paused, and \<open>getQuote\<close> has the outcome
  and the effects it has on the same pool not paused.
\<close>

theorem paused_pool_rejects_mutations:
  assumes "paused d" "paused p"
  shows "DemoSwap_swap c aToB amountIn minAmountOut d = (Inl PoolPaused, d)
       \<and> DemoSwap_addLiquidity c amountA amountB d = (Inl PoolPaused, d)
       \<and> DemoSwap_removeLiquidity c amountA amountB d = (Inl PoolPaused, d)
       \<and> PrivateSwap_swap c encIn encExpected encMin aToB p = (Inl PoolPaused, p)
       \<and> PrivateSwap_addLiquidity c encA encB p = (Inl PoolPaused, p)
       \<and> PrivateSwap_removeLiquidity c encA encB p = (Inl PoolPaused, p)
       \<and> quote d aToB amountIn = quote (d\<lparr>paused := False\<rparr>) aToB amountIn
       \<and> fst (getQuote c encIn aToB p) = fst (getQuote c encIn aToB (p\<lparr>paused := False\<rparr>))
       \<and> snd (getQuote c encIn aToB p)
           = (snd (getQuote c encIn aToB (p\<lparr>paused := False\<rparr>)))\<lparr>paused := True\<rparr>"
proof -
  have q: "quote d aToB amountIn = quote (d\<lparr>paused := False\<rparr>) aToB amountIn"
    by (simp add: quote_def calculateSwap_def)
  have p': "p = p\<lparr>paused := True\<rparr>" using assms(2) by simp
  have g: "fst (getQuote c encIn aToB (p\<lparr>paused := True\<rparr>))
             = fst (getQuote c encIn aToB (p\<lparr>paused := False\<rparr>))
       \<and> snd (getQuote c encIn aToB (p\<lparr>paused := True\<rparr>))
           = (snd (getQuote c encIn aToB (p\<lparr>paused := False\<rparr>)))\<lparr>paused := True\<rparr>"
    by (simp add: getQuote_def getQuote_body_def getQuote_amounts_def transact_def ebind_def
        checked_sub_def TFHE_asEuint64_def Let_def split: prod.splits)
  have m: "DemoSwap_swap c aToB amountIn minAmountOut d = (Inl PoolPaused, d)"
     "DemoSwap_addLiquidity c amountA amountB d = (Inl PoolPaused, d)"
     "DemoSwap_removeLiquidity c amountA amountB d = (Inl PoolPaused, d)"
     "PrivateSwap_swap c encIn encExpected encMin aToB p = (Inl PoolPaused, p)"
     "PrivateSwap_addLiquidity c encA encB p = (Inl PoolPaused, p)"
     "PrivateSwap_removeLiquidity c encA encB p = (Inl PoolPaused, p)"
    using assms
    by (simp_all add: DemoSwap_swap_def DemoSwap_swap_body_def
        DemoSwap_addLiquidity_def DemoSwap_addLiquidity_body_def
        DemoSwap_removeLiquidity_def DemoSwap_removeLiquidity_body_def
        PrivateSwap_swap_def PrivateSwap_swap_body_def
        PrivateSwap_addLiquidity_def PrivateSwap_addLiquidity_body_def
        PrivateSwap_removeLiquidity_def PrivateSwap_removeLiquidity_body_def transact_def)
  from g p' have g': "fst (getQuote c encIn aToB p) = fst (getQuote c encIn aToB (p\<lparr>paused := False\<rparr>))
       \<and> snd (getQuote c encIn aToB p)
           = (snd (getQuote c encIn aToB (p\<lparr>paused := False\<rparr>)))\<lparr>paused := True\<rparr>"
    by metis
  show ?thesis using q m g' by blast
qed

theorem paused_pool_rejects_mutations_witness:
  "paused (snd (DemoSwap_pause 1 scenarioA)) \<and> paused (snd (PrivateSwap_pause 1 deployedPrivate))
   \<and> fst (DemoSwap_swap trader True 10000 0 (snd (DemoSwap_pause 1 scenarioA))) = Inl PoolPaused
   \<and> fst (PrivateSwap_swap trader 10000 4935 4000 True (snd (PrivateSwap_pause 1 deployedPrivate)))
       = Inl PoolPaused
   \<and> quote (snd (DemoSwap_pause 1 scenarioA)) True 10000 = Inr 4935
   \<and> fst (getQuote trader 10000 True (snd (PrivateSwap_pause 1 deployedPrivate)))
       = fst (getQuote trader 10000 True
                ((snd (PrivateSwap_pause 1 deployedPrivate))\<lparr>paused := False\<rparr>))"
proof -
  have pd: "paused (snd (DemoSwap_pause 1 scenarioA))"
    by (simp add: DemoSwap_pause_def DemoSwap_pause_body_def transact_def pool_defs)
  have pp: "paused (snd (PrivateSwap_pause 1 deployedPrivate))"
    by (simp add: PrivateSwap_pause_def PrivateSwap_pause_body_def transact_def private_defs)
  have q: "quote ((snd (DemoSwap_pause 1 scenarioA))\<lparr>paused := False\<rparr>) True 10000 = Inr 4935"
    by (simp add: DemoSwap_pause_def DemoSwap_pause_body_def transact_def pool_defs
        quote_def calculateSwap_def ebind_def arith_defs)
  from paused_pool_rejects_mutations [OF pd pp, of trader True 10000 0 700 300 10000 4935 4000 700 300]
    pd pp q
  show ?thesis by simp
qed

section \<open>The emergency withdrawal (C10)\<close>

text \<open>
  C10. An owner's call \<open>emergencyWithdraw(token, amount)\<close> with \<open>amount > 0\<close> succeeds
  and changes nothing but the log, to which it appends one \<open>EmergencyWithdraw\<close> event:
  the encrypted reserves, the fee, the pause flag, every stored numerator and denominator
  and both token ledgers are as before.
\<close>

theorem emergencyWithdraw_only_logs:
  assumes "c = owner s" "0 < amount"
  shows "emergencyWithdraw c token amount s
           = (Inr (), s\<lparr>encEvents := encEvents s @ [EmergencyWithdraw token amount]\<rparr>)"
  using assms by (simp add: emergencyWithdraw_def emergencyWithdraw_body_def transact_def)

theorem emergencyWithdraw_only_logs_witness:
  "(1::address) = owner deployedPrivate \<and> (0::nat) < 77
   \<and> emergencyWithdraw 1 3 77 deployedPrivate
       = (Inr (), deployedPrivate\<lparr>encEvents := encEvents deployedPrivate @ [EmergencyWithdraw 3 77]\<rparr>)"
proof -
  have o: "(1::address) = owner deployedPrivate" by (simp add: private_defs)
  from emergencyWithdraw_only_logs [OF o, of 77 3] o show ?thesis by simp
qed

section \<open>The confidential quote against the transparent formula (C3)\<close>













section \<open>The confidential swap on the contract as written (C5)\<close>

lemma TFHE_asEuint64_reverts: "TFHE_asEuint64 input = Inl FhevmNotConfigured"
  by (simp add: fhevm_defs)

text \<open>
  No confidential \<open>addLiquidity\<close>, \<open>removeLiquidity\<close> or \<open>swap\<close> call completes, and
  each leaves the state as it was: the reserves are never initialised.
\<close>

lemma confidential_calls_never_complete:
  "fst (PrivateSwap_addLiquidity c amountA amountB p) \<noteq> Inr ()"
  "snd (PrivateSwap_addLiquidity c amountA amountB p) = p"
  "fst (PrivateSwap_removeLiquidity c amountA amountB p) \<noteq> Inr ()"
  "snd (PrivateSwap_removeLiquidity c amountA amountB p) = p"
  "fst (PrivateSwap_swap c amountIn expectedAmountOut minAmountOut isAtoB p) \<noteq> Inr ()"
  "snd (PrivateSwap_swap c amountIn expectedAmountOut minAmountOut isAtoB p) = p"
  by (simp_all add: PrivateSwap_addLiquidity_def PrivateSwap_addLiquidity_body_def
      PrivateSwap_removeLiquidity_def PrivateSwap_removeLiquidity_body_def
      PrivateSwap_swap_def PrivateSwap_swap_body_def transact_def ebind_def
      TFHE_asEuint64_reverts)

text \<open>
  C5. For \<open>expectedAmountOut < minAmountOut\<close> the selection written in \<open>swap\<close> does
  give \<open>actualTransferAmount = 0\<close> and \<open>actualInputAmount = 0\<close>, but the call does not
  complete. On the pool as its constructor leaves it, \<open>swap\<close> with amount 10,000,
  expected output 4,935 and minimum 5,000 fails with \<open>ReservesNotInitialized\<close>, and
  \<open>addLiquidity\<close>, the only function that initialises the reserves, fails at its first
  TFHE call; both leave the state unchanged.
\<close>

theorem confidential_swap_reverts_as_deployed:
  "swap_actual_amounts 10000 4935 5000 = (0, 0)
   \<and> PrivateSwap_swap trader 10000 4935 5000 True deployedPrivate
       = (Inl ReservesNotInitialized, deployedPrivate)
   \<and> PrivateSwap_addLiquidity trader 1000000 500000 deployedPrivate
       = (Inl FhevmNotConfigured, deployedPrivate)"
  by (simp add: swap_actual_amounts_def tfhe_defs PrivateSwap_swap_def PrivateSwap_swap_body_def
      PrivateSwap_addLiquidity_def PrivateSwap_addLiquidity_body_def transact_def ebind_def
      TFHE_asEuint64_reverts private_defs Let_def)

section \<open>Reserves that stay non-zero (C1)\<close>

lemma removeLiquidity_success:
  assumes "fst (DemoSwap_removeLiquidity c a b s) = Inr ()"
  shows "a \<le> reserveA s \<and> b \<le> reserveB s
         \<and> reserveA (snd (DemoSwap_removeLiquidity c a b s)) = reserveA s - a
         \<and> reserveB (snd (DemoSwap_removeLiquidity c a b s)) = reserveB s - b"
proof -
  define s' where "s' = snd (DemoSwap_removeLiquidity c a b s)"
  from assms have b: "DemoSwap_removeLiquidity_body c a b s = Inr ((), s')"
    by (simp add: DemoSwap_removeLiquidity_def transact_fst_Inr_iff s'_def)
  then have g: "a \<le> reserveA s" "b \<le> reserveB s"
    by (simp_all add: DemoSwap_removeLiquidity_body_def split: if_splits)
  from b g have "reserveA s' = reserveA s - a \<and> reserveB s' = reserveB s - b"
    by (auto simp add: DemoSwap_removeLiquidity_body_def Inr_iffs split: if_splits)
  with g show ?thesis by (simp add: s'_def)
qed

lemma scenarioA_removeLiquidity:
  "fst (DemoSwap_removeLiquidity trader 700 300 scenarioA) = Inr ()"
  by (simp add: DemoSwap_removeLiquidity_def transact_def DemoSwap_removeLiquidity_body_def
      ebind_def pool_defs token_defs arith_defs)

text \<open>
  C1, as amended. From a state of the transparent pool with both reserves non-zero:
  \<^item> a successful \<open>swap\<close> or \<open>addLiquidity\<close> leaves both reserves non-zero;
  \<^item> a successful \<open>removeLiquidity(amountA, amountB)\<close> leaves both non-zero exactly when
    \<open>amountA < reserveA\<close> and \<open>amountB < reserveB\<close>: an amount equal to its reserve is
    accepted and drains that side to zero.
\<close>

theorem reserves_stay_positive_unless_drained:
  assumes "reserves_positive s"
  shows
   "(fst (DemoSwap_swap c aToB amountIn minAmountOut s) = Inr amountOut
       \<longrightarrow> reserves_positive (snd (DemoSwap_swap c aToB amountIn minAmountOut s)))
  \<and> (fst (DemoSwap_addLiquidity c amountA amountB s) = Inr ()
       \<longrightarrow> reserves_positive (snd (DemoSwap_addLiquidity c amountA amountB s)))
  \<and> (fst (DemoSwap_removeLiquidity c amountA amountB s) = Inr ()
       \<longrightarrow> reserves_positive (snd (DemoSwap_removeLiquidity c amountA amountB s))
           = (amountA < reserveA s \<and> amountB < reserveB s))"
proof -
  from assms(1) have sp: "0 < reserveA s" "0 < reserveB s"
    by (simp_all add: reserves_positive_def)
  have 1: "reserves_positive (snd (DemoSwap_swap c aToB amountIn minAmountOut s))"
    if h: "fst (DemoSwap_swap c aToB amountIn minAmountOut s) = Inr amountOut"
  proof -
    define s' where "s' = snd (DemoSwap_swap c aToB amountIn minAmountOut s)"
    define x where "x = amountIn - amountIn * feeNumerator s div 10000"
    from h have e: "DemoSwap_swap c aToB amountIn minAmountOut s = (Inr amountOut, s')"
      by (simp add: prod_eq_iff s'_def)
    note r = swap_success_reserves [OF e]
    show ?thesis
    proof (cases aToB)
      case True
      with r have "reserveA s' = reserveA s + x"
        "reserveB s' = reserveB s - x * reserveB s div (reserveA s + x)"
        by (simp_all add: x_def)
      then show ?thesis
        using sp quotient_less [OF sp(1) sp(2), of x]
        by (simp add: reserves_positive_def s'_def [symmetric])
    next
      case False
      with r have "reserveB s' = reserveB s + x"
        "reserveA s' = reserveA s - x * reserveA s div (reserveB s + x)"
        by (simp_all add: x_def)
      then show ?thesis
        using sp quotient_less [OF sp(2) sp(1), of x]
        by (simp add: reserves_positive_def s'_def [symmetric])
    qed
  qed
  have 2: "reserves_positive (snd (DemoSwap_addLiquidity c amountA amountB s))"
    if h: "fst (DemoSwap_addLiquidity c amountA amountB s) = Inr ()"
  proof -
    from h have e: "DemoSwap_addLiquidity c amountA amountB s
        = (Inr (), snd (DemoSwap_addLiquidity c amountA amountB s))"
      by (simp add: prod_eq_iff)
    from addLiquidity_success [OF e] sp show ?thesis
      by (simp add: reserves_positive_def)
  qed
  have 3: "reserves_positive (snd (DemoSwap_removeLiquidity c amountA amountB s))
           = (amountA < reserveA s \<and> amountB < reserveB s)"
    if h: "fst (DemoSwap_removeLiquidity c amountA amountB s) = Inr ()"
    using removeLiquidity_success [OF h] by (auto simp add: reserves_positive_def)
  show ?thesis using 1 2 3 by blast
qed

theorem removeLiquidity_drains_counterexample:
  "0 < reserveA scenarioA \<and> 0 < reserveB scenarioA
   \<and> fst (DemoSwap_removeLiquidity trader 1000000 0 scenarioA) = Inr ()
   \<and> reserveA (snd (DemoSwap_removeLiquidity trader 1000000 0 scenarioA)) = 0
   \<and> reserveB (snd (DemoSwap_removeLiquidity trader 1000000 0 scenarioA)) = 500000"
  by (simp add: DemoSwap_removeLiquidity_def transact_def DemoSwap_removeLiquidity_body_def
      ebind_def pool_defs token_defs arith_defs)

theorem reserves_stay_positive_unless_drained_witness:
  "reserves_positive scenarioA
   \<and> fst (DemoSwap_swap trader True 10000 0 scenarioA) = Inr 4935
   \<and> reserves_positive (snd (DemoSwap_swap trader True 10000 0 scenarioA))
   \<and> fst (DemoSwap_addLiquidity trader 700 300 scenarioA) = Inr ()
   \<and> reserves_positive (snd (DemoSwap_addLiquidity trader 700 300 scenarioA))
   \<and> fst (DemoSwap_removeLiquidity trader 700 300 scenarioA) = Inr ()
   \<and> reserves_positive (snd (DemoSwap_removeLiquidity trader 700 300 scenarioA))"
proof -
  have a: "reserves_positive scenarioA"
    by (simp add: reserves_positive_def pool_defs)
  have v: "reserveA scenarioA = 1000000" "reserveB scenarioA = 500000"
    by (simp_all add: pool_defs)
  from reserves_stay_positive_unless_drained [OF a, of trader True 10000 0 4935 700 300]
    a scenarioA_swap scenarioA_addLiquidity scenarioA_removeLiquidity v
  show ?thesis by simp
qed

end
